theory Spec2Isabelle
  imports Complex_Main "HOL-Library.AList"
begin

section \<open>Data model (assets/models.py)\<close>

text \<open>
  Amounts are Django \<open>DecimalField\<close>s; a nullable column is an \<open>option\<close>. The
  arithmetic that the source itself writes on decimals and floats is taken as exact
  arithmetic on \<open>real\<close>; no branch of the source depends on its rounding. What the
  source leaves to its libraries is not computed here but taken as an input: the
  rounded float64 results of numpy's statistics, and what \<open>save()\<close> of the risk metrics
  does with the values assigned (see the calculator below).
  A moment in time is a number of seconds, a calendar date is a number of days.
\<close>

type_synonym datetime = int
type_synonym date = int

record wallet_token =
  symbol :: string
  balance_usd :: "real option"

record Portfolio =
  total_value_usd :: real
  previous_day_value_usd :: "real option"
  previous_week_value_usd :: "real option"
  previous_month_value_usd :: "real option"
  all_time_high_usd :: "real option"
  all_time_high_date :: "date option"
  all_time_low_usd :: "real option"
  all_time_low_date :: "date option"

record PortfolioSnapshot =
  snapshot_total_value_usd :: real
  timestamp :: datetime

text \<open>
  What numpy computes on float64 besides finite numbers: the two infinities and NaN.
  \<open>Decimal(str(x))\<close> keeps them, so they are also what the calculator assigns to the
  fields of \<open>RiskMetrics\<close>.
\<close>

datatype npfloat = Fin real | PInf | NInf | NaN

record RiskMetrics =
  volatility_30d :: "npfloat option"
  volatility_90d :: "npfloat option"
  max_drawdown :: "npfloat option"
  sharpe_ratio :: "npfloat option"
  value_at_risk :: "npfloat option"
  concentration_risk :: "real option"

text \<open>
  The rows that belong to one user: at most one \<open>Portfolio\<close> (one-to-one with the user),
  its snapshots, at most one \<open>RiskMetrics\<close> (one-to-one with the portfolio) and the
  \<open>WalletToken\<close> rows of the user's wallets (each with the symbol of its token).
\<close>

record db =
  portfolio :: "Portfolio option"
  snapshots :: "PortfolioSnapshot list"
  risk_metrics :: "RiskMetrics option"
  wallet_tokens :: "wallet_token list"

definition new_portfolio :: Portfolio where
  "new_portfolio =
     \<lparr>total_value_usd = 0,
      previous_day_value_usd = None, previous_week_value_usd = None,
      previous_month_value_usd = None,
      all_time_high_usd = None, all_time_high_date = None,
      all_time_low_usd = None, all_time_low_date = None\<rparr>"

definition new_risk_metrics :: RiskMetrics where
  "new_risk_metrics =
     \<lparr>volatility_30d = None, volatility_90d = None, max_drawdown = None,
      sharpe_ratio = None, value_at_risk = None, concentration_risk = None\<rparr>"

text \<open>\<open>Portfolio.objects.get_or_create(user=...)\<close>: the row, whether it was created, the table.\<close>

definition portfolio_get_or_create :: "db \<Rightarrow> Portfolio \<times> bool \<times> db" where
  "portfolio_get_or_create st =
     (case portfolio st of
        None \<Rightarrow> (new_portfolio, True, st\<lparr>portfolio := Some new_portfolio\<rparr>)
      | Some p \<Rightarrow> (p, False, st))"

text \<open>\<open>RiskMetrics.objects.get_or_create(portfolio=...)\<close>.\<close>

definition risk_metrics_get_or_create :: "db \<Rightarrow> RiskMetrics \<times> db" where
  "risk_metrics_get_or_create st =
     (case risk_metrics st of
        None \<Rightarrow> (new_risk_metrics, st\<lparr>risk_metrics := Some new_risk_metrics\<rparr>)
      | Some r \<Rightarrow> (r, st))"

text \<open>
  The fields of the risk metrics as every reader of the table obtains them (both views
  and the calculator read through \<open>get_or_create\<close>): a missing row reads as the row
  with every field unset.
\<close>

definition stored_risk_metrics :: "db \<Rightarrow> RiskMetrics" where
  "stored_risk_metrics st = fst (risk_metrics_get_or_create st)"

section \<open>Shared helpers of the views (assets/views.py)\<close>

text \<open>\<open>wt.balance_usd or 0\<close>: a null balance and a zero balance both give 0.\<close>

definition or_zero :: "real option \<Rightarrow> real" where
  "or_zero b = (case b of None \<Rightarrow> 0 | Some v \<Rightarrow> if v = 0 then 0 else v)"

text \<open>\<open>sum(wt.balance_usd or 0 for wt in wallet_tokens)\<close>.\<close>

definition total_value_of :: "wallet_token list \<Rightarrow> real" where
  "total_value_of wts = sum_list (map (\<lambda>wt. or_zero (balance_usd wt)) wts)"

text \<open>
  The dictionary \<open>token_values\<close>, in insertion order: a symbol seen before has the balance
  added to its entry, a new symbol gets an entry at the end.
\<close>

definition add_token_value :: "wallet_token \<Rightarrow> (string \<times> real) list \<Rightarrow> (string \<times> real) list" where
  "add_token_value wt tv =
     (case map_of tv (symbol wt) of
        Some v \<Rightarrow> AList.update (symbol wt) (v + or_zero (balance_usd wt)) tv
      | None \<Rightarrow> AList.update (symbol wt) (or_zero (balance_usd wt)) tv)"

definition token_values_of :: "wallet_token list \<Rightarrow> (string \<times> real) list" where
  "token_values_of wts = fold add_token_value wts []"

section \<open>The portfolio overview: \<open>PortfolioView.get\<close>\<close>

record allocation =
  alloc_symbol :: string
  value_usd :: real
  percentage :: real

record performance =
  daily_change_pct :: real
  weekly_change_pct :: real
  monthly_change_pct :: real

record overview =
  ov_total_value_usd :: real
  asset_allocation :: "allocation list"
  ov_performance :: performance
  ov_risk_metrics :: RiskMetrics
  historical_data :: "(datetime \<times> real) list"

definition days :: "int \<Rightarrow> int" where
  "days n = n * 86400"

text \<open>
  One of the three blocks "Daily change", "Weekly change", "Monthly change": the change
  starts at 0 and is computed only if the checkpoint is truthy (neither null nor zero)
  and greater than 0.
\<close>

definition change_pct :: "real \<Rightarrow> real option \<Rightarrow> real" where
  "change_pct total_value checkpoint =
     (case checkpoint of
        None \<Rightarrow> 0
      | Some c \<Rightarrow> if c \<noteq> 0 \<and> c > 0 then ((total_value - c) / c) * 100 else 0)"

definition allocation_of :: "real \<Rightarrow> string \<times> real \<Rightarrow> allocation" where
  "allocation_of total_value sv =
     \<lparr>alloc_symbol = fst sv, value_usd = snd sv,
      percentage = (if total_value > 0 then (snd sv / total_value) * 100 else 0)\<rparr>"

text \<open>
  The body of \<open>get\<close>, with the current time as input: the response and the tables after
  the request. \<open>sort(key=..., reverse=True)\<close> is stable, as is sorting on the negated key.
  Nothing in the body raises on rows of these types, so the handler that answers with
  status 500 is not reached.
\<close>

definition portfolio_view_get :: "datetime \<Rightarrow> db \<Rightarrow> overview \<times> db" where
  "portfolio_view_get now st =
     (let (portfolio0, created, st1) = portfolio_get_or_create st;
          total_value = total_value_of (wallet_tokens st1);
          portfolio1 = portfolio0\<lparr>total_value_usd := total_value\<rparr>;
          st2 = st1\<lparr>portfolio := Some portfolio1\<rparr>;
          token_values = token_values_of (wallet_tokens st2);
          allocations = sort_key (\<lambda>a. - value_usd a) (map (allocation_of total_value) token_values);
          (rm, st3) = risk_metrics_get_or_create st2;
          thirty_days_ago = now - days 30;
          history = map (\<lambda>s. (timestamp s, snapshot_total_value_usd s))
                      (sort_key timestamp (filter (\<lambda>s. thirty_days_ago \<le> timestamp s) (snapshots st3)))
      in (\<lparr>ov_total_value_usd = total_value,
           asset_allocation = allocations,
           ov_performance =
             \<lparr>daily_change_pct = change_pct total_value (previous_day_value_usd portfolio1),
              weekly_change_pct = change_pct total_value (previous_week_value_usd portfolio1),
              monthly_change_pct = change_pct total_value (previous_month_value_usd portfolio1)\<rparr>,
           ov_risk_metrics = rm,
           historical_data = history\<rparr>, st3))"

section \<open>The risk metrics calculator (assets/services.py)\<close>

subsection \<open>Return series\<close>

text \<open>
  The loop \<open>for i in range(1, len(values))\<close>: a pair whose first value is not positive
  is skipped.
\<close>

fun daily_returns :: "real list \<Rightarrow> real list" where
  "daily_returns (a # b # vs) =
     (if a > 0 then (b - a) / a # daily_returns (b # vs) else daily_returns (b # vs))"
| "daily_returns vs = []"

subsection \<open>numpy\<close>

text \<open>
  numpy is not part of the repository. Its functions that compute in float64 and round,
  \<open>np.mean\<close>, \<open>np.std\<close>, \<open>np.percentile\<close> and \<open>np.sqrt\<close>, enter the model as what the
  installed library returns: the calculator is a function of them. A mathematically
  zero deviation need not come out as 0.0 (six equal returns of 0.2 have
  \<open>np.std = 2 ** -55\<close>), and the source branches on \<open>np.std(...) > 0\<close>. The functions
  are applied here to the returns as exact numbers; the library sees their float64
  values.
\<close>

record numpy =
  np_mean :: "real list \<Rightarrow> real"
  np_std :: "real list \<Rightarrow> real"
  np_percentile :: "real list \<Rightarrow> real \<Rightarrow> real"
  np_sqrt :: "real \<Rightarrow> real"

text \<open>
  What the four functions are specified to compute, with nothing rounded: the
  arithmetic mean, the population standard deviation (\<open>ddof=0\<close>), the percentile by
  linear interpolation between the two order statistics around the position
  \<open>q / 100 * (n - 1)\<close> (on a non-empty array), the square root.
\<close>

definition mean_of :: "real list \<Rightarrow> real" where
  "mean_of xs = sum_list xs / real (length xs)"

definition population_std :: "real list \<Rightarrow> real" where
  "population_std xs = sqrt (mean_of (map (\<lambda>x. \<bar>x - mean_of xs\<bar> ^ 2) xs))"

definition linear_percentile :: "real list \<Rightarrow> real \<Rightarrow> real" where
  "linear_percentile a q =
     (let sorted = sort a;
          n = length a;
          pos = q / 100 * real (n - 1);
          lo = nat \<lfloor>pos\<rfloor>;
          hi = min (lo + 1) (n - 1);
          gamma = pos - real lo
      in sorted ! lo + gamma * (sorted ! hi - sorted ! lo))"

definition exact_numpy :: numpy where
  "exact_numpy =
     \<lparr>np_mean = mean_of, np_std = population_std,
      np_percentile = linear_percentile, np_sqrt = sqrt\<rparr>"

text \<open>
  The remaining functions select elements or produce the exceptional values, and are
  modelled. \<open>np.maximum.accumulate\<close>: the running maximum.
\<close>

fun accumulate_from :: "real \<Rightarrow> real list \<Rightarrow> real list" where
  "accumulate_from m [] = []"
| "accumulate_from m (x # xs) = max m x # accumulate_from (max m x) xs"

fun maximum_accumulate :: "real list \<Rightarrow> real list" where
  "maximum_accumulate [] = []"
| "maximum_accumulate (x # xs) = x # accumulate_from x xs"

text \<open>
  Division of float64 arrays is elementwise and never raises: a zero divisor gives NaN
  for a zero dividend and an infinity otherwise (numpy only warns).
\<close>

definition np_divide :: "real \<Rightarrow> real \<Rightarrow> npfloat" where
  "np_divide a b =
     (if b \<noteq> 0 then Fin (a / b)
      else if a = 0 then NaN
      else if a > 0 then PInf else NInf)"

text \<open>The maximum of two floats as \<open>np.max\<close> takes it: NaN wins over everything.\<close>

fun np_maximum :: "npfloat \<Rightarrow> npfloat \<Rightarrow> npfloat" where
  "np_maximum NaN y = NaN"
| "np_maximum x NaN = NaN"
| "np_maximum PInf y = PInf"
| "np_maximum x PInf = PInf"
| "np_maximum NInf y = y"
| "np_maximum x NInf = x"
| "np_maximum (Fin a) (Fin b) = Fin (max a b)"

text \<open>\<open>np.max\<close> raises ValueError on an empty array (\<open>None\<close> here).\<close>

fun np_max :: "npfloat list \<Rightarrow> npfloat option" where
  "np_max [] = None"
| "np_max (x # xs) = Some (fold (\<lambda>y m. np_maximum m y) xs x)"

text \<open>\<open>100 * x\<close> on a float.\<close>

fun times_100 :: "npfloat \<Rightarrow> npfloat" where
  "times_100 (Fin x) = Fin (100 * x)"
| "times_100 PInf = PInf"
| "times_100 NInf = NInf"
| "times_100 NaN = NaN"

subsection \<open>The metrics\<close>

text \<open>\<open>np.std(returns_array[-30:] if len(returns_array) >= 30 else returns_array) * 100\<close>.\<close>

definition volatility_30d_of :: "numpy \<Rightarrow> real list \<Rightarrow> real" where
  "volatility_30d_of np returns =
     np_std np (if length returns \<ge> 30 then drop (length returns - 30) returns else returns) * 100"

definition volatility_90d_of :: "numpy \<Rightarrow> real list \<Rightarrow> real" where
  "volatility_90d_of np returns = np_std np returns * 100"

text \<open>
  \<open>rolling_max = np.maximum.accumulate(values)\<close>,
  \<open>drawdowns = (rolling_max - values) / rolling_max\<close>,
  \<open>max_drawdown = 100 * np.max(drawdowns)\<close>.
\<close>

definition drawdowns_of :: "real list \<Rightarrow> npfloat list" where
  "drawdowns_of values =
     map (\<lambda>(m, v). np_divide (m - v) m) (zip (maximum_accumulate values) values)"

definition max_drawdown_of :: "real list \<Rightarrow> npfloat option" where
  "max_drawdown_of values = map_option times_100 (np_max (drawdowns_of values))"

definition risk_free_rate :: real where
  "risk_free_rate = 0.02 / 365"

definition sharpe_ratio_of :: "numpy \<Rightarrow> real list \<Rightarrow> real" where
  "sharpe_ratio_of np returns =
     (if np_std np returns > 0
      then (np_mean np returns - risk_free_rate) / np_std np returns * np_sqrt np 365
      else 0)"

definition var_95_of :: "numpy \<Rightarrow> real list \<Rightarrow> real" where
  "var_95_of np returns = \<bar>np_percentile np returns 5 * 100\<bar>"

subsection \<open>\<open>RiskAnalysisService.calculate_portfolio_risk_metrics\<close>\<close>

text \<open>The snapshots of the last 90 days, ordered by timestamp.\<close>

definition window_90d :: "datetime \<Rightarrow> db \<Rightarrow> PortfolioSnapshot list" where
  "window_90d now st =
     sort_key timestamp (filter (\<lambda>s. now - days 90 \<le> timestamp s) (snapshots st))"

text \<open>
  \<open>risk_metrics.save()\<close> is the framework's. Given the row with the values assigned, it
  either raises (\<open>Inl\<close> with the text of the exception: a value the column cannot hold,
  such as a Sharpe ratio of more than the 5 digits of its \<open>DecimalField\<close>, or one that is
  not finite) or stores the row (\<open>Inr\<close>, the values as the columns keep them). It is an
  input of the calculator, like numpy.
\<close>

type_synonym save = "RiskMetrics \<Rightarrow> string + RiskMetrics"

text \<open>A \<open>save()\<close> that never raises and stores every value as assigned.\<close>

definition save_as_assigned :: save where
  "save_as_assigned rm = Inr rm"

text \<open>
  The body of the method on the tables of the portfolio with the given id, with numpy,
  \<open>save()\<close> and the current time as inputs: the returned pair and the tables afterwards.
  A missing portfolio row is \<open>Portfolio.DoesNotExist\<close>. The last handler catches
  everything else: the ValueError of \<open>np.max\<close> and what \<open>save()\<close> raises; the rows are
  then as they were after \<open>get_or_create\<close>.
\<close>

definition calculate_portfolio_risk_metrics ::
    "numpy \<Rightarrow> save \<Rightarrow> datetime \<Rightarrow> db \<Rightarrow> (bool \<times> string) \<times> db" where
  "calculate_portfolio_risk_metrics np save now st =
     (case portfolio st of
        None \<Rightarrow> ((False, ''Portfolio not found''), st)
      | Some p \<Rightarrow>
         (let (rm, st1) = risk_metrics_get_or_create st;
              snaps = window_90d now st1
          in if length snaps < 7
             then ((False, ''Not enough historical data for risk calculations''), st1)
             else
              (let values = map snapshot_total_value_usd snaps;
                   returns = daily_returns values
               in if length returns < 5
                  then ((False, ''Not enough return data for risk calculations''), st1)
                  else
                   (case max_drawdown_of values of
                      None \<Rightarrow>
                        ((False, ''Error calculating risk metrics: zero-size array to reduction operation maximum which has no identity''), st1)
                    | Some dd \<Rightarrow>
                        (case save (rm
                           \<lparr>volatility_30d := Some (Fin (volatility_30d_of np returns)),
                            volatility_90d := Some (Fin (volatility_90d_of np returns)),
                            max_drawdown := Some dd,
                            sharpe_ratio := Some (Fin (sharpe_ratio_of np returns)),
                            value_at_risk := Some (Fin (var_95_of np returns))\<rparr>) of
                           Inl msg \<Rightarrow>
                             ((False, ''Error calculating risk metrics: '' @ msg), st1)
                         | Inr stored \<Rightarrow>
                             ((True, ''Risk metrics updated successfully''),
                              st1\<lparr>risk_metrics := Some stored\<rparr>))))))"

section \<open>Synchronisation: \<open>SyncWalletDataView.post\<close>\<close>

subsection \<open>Transaction direction\<close>

text \<open>
  \<open>str.lower\<close> on the letters an address can hold (ASCII): an upper-case letter moves
  to its lower-case one, everything else stays.
\<close>

definition lower_char :: "char \<Rightarrow> char" where
  "lower_char c =
     (let n = (of_char c :: nat) in if 65 \<le> n \<and> n \<le> 90 then char_of (n + 32) else c)"

definition lower :: "string \<Rightarrow> string" where
  "lower s = map lower_char s"

text \<open>
  The two addresses of a transaction as the provider sent them; \<open>tx_info.get\<close> gives
  \<open>None\<close> for a missing key.
\<close>

record tx_info =
  from_address :: "string option"
  to_address :: "string option"

definition transaction_type_of :: "string \<Rightarrow> tx_info \<Rightarrow> string" where
  "transaction_type_of wallet_address tx =
     (if from_address tx = Some (lower wallet_address) then ''send''
      else if to_address tx = Some (lower wallet_address) then ''receive''
      else ''unknown'')"

subsection \<open>The portfolio update\<close>

datatype exn = NameError string | ValueError string

text \<open>
  The names bound at the top level of assets/views.py when a request runs: its imports,
  its logger and its three classes. A name used in a method is looked up here (and then
  in the builtins) when the line runs, and a miss raises NameError.
\<close>

definition views_globals :: "string list" where
  "views_globals =
     [''status'', ''api_view'', ''APIView'', ''Response'', ''IsAuthenticated'',
      ''Wallet'', ''WalletUser'',
      ''Token'', ''WalletToken'', ''Transaction'', ''Portfolio'', ''RiskMetrics'',
      ''TokenSerializer'', ''WalletTokenSerializer'', ''TransactionSerializer'',
      ''PortfolioSerializer'', ''RiskMetricsSerializer'',
      ''MoralisService'', ''logging'', ''datetime'', ''timedelta'', ''logger'',
      ''PortfolioView'', ''TransactionHistoryView'', ''SyncWalletDataView'']"

definition lookup_global :: "string \<Rightarrow> exn + unit" where
  "lookup_global name = (if name \<in> set views_globals then Inr () else Inl (NameError name))"

text \<open>\<open>not x\<close> on a nullable decimal: true for null and for zero.\<close>

definition falsy :: "real option \<Rightarrow> bool" where
  "falsy x = (case x of None \<Rightarrow> True | Some v \<Rightarrow> v = 0)"

text \<open>The branch \<open>if not created\<close>: checkpoints, then the two extrema.\<close>

definition fill_checkpoints :: "real \<Rightarrow> Portfolio \<Rightarrow> Portfolio" where
  "fill_checkpoints total_value p =
     (let p1 = (if falsy (previous_day_value_usd p)
                then p\<lparr>previous_day_value_usd := Some total_value\<rparr> else p);
          p2 = (if falsy (previous_week_value_usd p1)
                then p1\<lparr>previous_week_value_usd := Some total_value\<rparr> else p1)
      in if falsy (previous_month_value_usd p2)
         then p2\<lparr>previous_month_value_usd := Some total_value\<rparr> else p2)"

definition update_extrema :: "real \<Rightarrow> date \<Rightarrow> Portfolio \<Rightarrow> Portfolio" where
  "update_extrema total_value today p =
     (let p1 = (case all_time_high_usd p of
                  None \<Rightarrow> p\<lparr>all_time_high_usd := Some total_value, all_time_high_date := Some today\<rparr>
                | Some h \<Rightarrow>
                    if total_value > h
                    then p\<lparr>all_time_high_usd := Some total_value, all_time_high_date := Some today\<rparr>
                    else p)
      in case all_time_low_usd p1 of
           None \<Rightarrow> p1\<lparr>all_time_low_usd := Some total_value, all_time_low_date := Some today\<rparr>
         | Some l \<Rightarrow>
             if total_value < l
             then p1\<lparr>all_time_low_usd := Some total_value, all_time_low_date := Some today\<rparr>
             else p1)"

text \<open>The branch \<open>else\<close>: a portfolio created by this request.\<close>

definition initialize_portfolio :: "real \<Rightarrow> date \<Rightarrow> Portfolio \<Rightarrow> Portfolio" where
  "initialize_portfolio total_value today p =
     p\<lparr>previous_day_value_usd := Some total_value,
       previous_week_value_usd := Some total_value,
       previous_month_value_usd := Some total_value,
       all_time_high_usd := Some total_value, all_time_high_date := Some today,
       all_time_low_usd := Some total_value, all_time_low_date := Some today\<rparr>"

text \<open>
  \<open>PortfolioSnapshot.objects.create(portfolio=portfolio, total_value_usd=total_value)\<close>:
  the name is looked up first; the timestamp defaults to the current time.
\<close>

definition create_snapshot :: "real \<Rightarrow> datetime \<Rightarrow> db \<Rightarrow> exn + db" where
  "create_snapshot total_value now st =
     (case lookup_global ''PortfolioSnapshot'' of
        Inl e \<Rightarrow> Inl e
      | Inr _ \<Rightarrow>
          Inr (st\<lparr>snapshots := snapshots st @
                    [\<lparr>snapshot_total_value_usd = total_value, timestamp = now\<rparr>]\<rparr>))"

text \<open>\<open>max\<close> of the values of the dictionary; Python raises ValueError on an empty one.\<close>

definition py_max :: "real list \<Rightarrow> exn + real" where
  "py_max vs = (case vs of [] \<Rightarrow> Inl (ValueError ''max() arg is an empty sequence'')
                | v # rest \<Rightarrow> Inr (fold (\<lambda>x m. if x > m then x else m) rest v))"

text \<open>The block "Calculate concentration risk": the fields of the risk metrics after it.\<close>

definition concentration_block :: "wallet_token list \<Rightarrow> real \<Rightarrow> RiskMetrics \<Rightarrow> exn + RiskMetrics" where
  "concentration_block wts total_value rm =
     (if wts \<noteq> [] \<and> total_value > 0
      then (case py_max (map snd (token_values_of wts)) of
              Inl e \<Rightarrow> Inl e
            | Inr largest_position \<Rightarrow>
                Inr (rm\<lparr>concentration_risk := Some ((largest_position / total_value) * 100)\<rparr>))
      else Inr rm)"

text \<open>
  The block "Update portfolio data" of \<open>post\<close>, with today's date and the current time
  as inputs: the entries it appends to \<open>results['failed_syncs']\<close> (the prefix and the
  exception) and the tables afterwards. An exception leaves the block at the line that
  raises it: what was saved before stays saved, what follows does not run.
\<close>

definition update_portfolio_data :: "date \<Rightarrow> datetime \<Rightarrow> db \<Rightarrow> (string \<times> exn) list \<times> db" where
  "update_portfolio_data today now st =
     (let (portfolio0, created, st1) = portfolio_get_or_create st;
          total_value = total_value_of (wallet_tokens st1);
          portfolio1 = (if \<not> created
                        then update_extrema total_value today (fill_checkpoints total_value portfolio0)
                        else initialize_portfolio total_value today portfolio0);
          portfolio2 = portfolio1\<lparr>total_value_usd := total_value\<rparr>;
          st2 = st1\<lparr>portfolio := Some portfolio2\<rparr>
      in case create_snapshot total_value now st2 of
           Inl e \<Rightarrow> ([(''Portfolio update'', e)], st2)
         | Inr st3 \<Rightarrow>
            (let (rm, st4) = risk_metrics_get_or_create st3
             in case concentration_block (wallet_tokens st4) total_value rm of
                  Inl e \<Rightarrow> ([(''Portfolio update'', e)], st4)
                | Inr rm' \<Rightarrow> ([], st4\<lparr>risk_metrics := Some rm'\<rparr>)))"

text \<open>
  One synchronisation request. The loop over the wallets talks to the data provider and
  rewrites the \<open>WalletToken\<close> rows; it enters here by its outcome, the rows it leaves
  behind. Then the portfolio update runs on them.
\<close>

record cycle =
  cycle_tokens :: "wallet_token list"
  cycle_today :: date
  cycle_now :: datetime

definition sync_cycle :: "cycle \<Rightarrow> db \<Rightarrow> db" where
  "sync_cycle c st =
     snd (update_portfolio_data (cycle_today c) (cycle_now c) (st\<lparr>wallet_tokens := cycle_tokens c\<rparr>))"

definition run_cycles :: "cycle list \<Rightarrow> db \<Rightarrow> db" where
  "run_cycles cs st = fold sync_cycle cs st"

section \<open>Notions used in the statements\<close>

text \<open>The valuation of a cycle: the total it computes from the rows the provider sync left.\<close>

definition cycle_total :: "cycle \<Rightarrow> real" where
  "cycle_total c = total_value_of (cycle_tokens c)"

text \<open>
  A fresh portfolio: no valuation recorded yet and no extremum set. The row itself may
  be missing (the first synchronisation creates it) or may have been created by an
  earlier read of the overview.
\<close>

definition fresh :: "db \<Rightarrow> bool" where
  "fresh st =
     (snapshots st = [] \<and>
      (case portfolio st of
         None \<Rightarrow> True
       | Some p \<Rightarrow> all_time_high_usd p = None \<and> all_time_low_usd p = None))"

text \<open>The five fields that the calculator derives from the snapshot history.\<close>

definition history_metrics ::
    "RiskMetrics \<Rightarrow> npfloat option \<times> npfloat option \<times> npfloat option \<times> npfloat option \<times> npfloat option" where
  "history_metrics rm =
     (volatility_30d rm, volatility_90d rm, max_drawdown rm, sharpe_ratio rm, value_at_risk rm)"

section \<open>Example inputs\<close>

definition fresh_db :: db where
  "fresh_db = \<lparr>portfolio = None, snapshots = [], risk_metrics = None, wallet_tokens = []\<rparr>"

definition three_tokens :: "wallet_token list" where
  "three_tokens =
     [\<lparr>symbol = ''BTC'', balance_usd = Some 600\<rparr>,
      \<lparr>symbol = ''ETH'', balance_usd = Some 300\<rparr>,
      \<lparr>symbol = ''SOL'', balance_usd = Some 100\<rparr>]"

definition cycle_empty :: cycle where
  "cycle_empty = \<lparr>cycle_tokens = [], cycle_today = 101, cycle_now = days 101\<rparr>"

definition cycle_500 :: cycle where
  "cycle_500 = \<lparr>cycle_tokens = [\<lparr>symbol = ''ETH'', balance_usd = Some 500\<rparr>],
                 cycle_today = 102, cycle_now = days 102\<rparr>"

definition cycle_1000 :: cycle where
  "cycle_1000 = \<lparr>cycle_tokens = three_tokens, cycle_today = 103, cycle_now = days 103\<rparr>"

text \<open>A portfolio with a day checkpoint of 100, a week checkpoint of 0 and no month checkpoint.\<close>

definition checkpoint_portfolio :: Portfolio where
  "checkpoint_portfolio =
     new_portfolio\<lparr>total_value_usd := 100, previous_day_value_usd := Some 100,
                   previous_week_value_usd := Some 0\<rparr>"

definition checkpoint_db :: db where
  "checkpoint_db =
     \<lparr>portfolio = Some checkpoint_portfolio, snapshots = [], risk_metrics = None,
      wallet_tokens = [\<lparr>symbol = ''ETH'', balance_usd = Some 500\<rparr>]\<rparr>"

definition flat_values :: "real list" where
  "flat_values = [100, 100, 100, 100, 100, 100, 100, 100]"

text \<open>
  Seven valuations that grow by exactly one fifth each time: six equal returns of 0.2.
\<close>

definition growth_values :: "real list" where
  "growth_values = [15625, 18750, 22500, 27000, 32400, 38880, 46656]"

text \<open>Eight daily snapshots of 100, all inside the window of day 103.\<close>

definition history_db :: db where
  "history_db =
     \<lparr>portfolio = Some (new_portfolio\<lparr>total_value_usd := 100\<rparr>),
      snapshots =
        [\<lparr>snapshot_total_value_usd = 100, timestamp = days 91\<rparr>,
         \<lparr>snapshot_total_value_usd = 100, timestamp = days 92\<rparr>,
         \<lparr>snapshot_total_value_usd = 100, timestamp = days 93\<rparr>,
         \<lparr>snapshot_total_value_usd = 100, timestamp = days 94\<rparr>,
         \<lparr>snapshot_total_value_usd = 100, timestamp = days 95\<rparr>,
         \<lparr>snapshot_total_value_usd = 100, timestamp = days 96\<rparr>,
         \<lparr>snapshot_total_value_usd = 100, timestamp = days 97\<rparr>,
         \<lparr>snapshot_total_value_usd = 100, timestamp = days 98\<rparr>],
      risk_metrics = Some new_risk_metrics,
      wallet_tokens = [\<lparr>symbol = ''ETH'', balance_usd = Some 100\<rparr>]\<rparr>"

text \<open>Seven snapshots of which only the last three have a positive predecessor.\<close>

definition sparse_db :: db where
  "sparse_db =
     \<lparr>portfolio = Some new_portfolio,
      snapshots =
        [\<lparr>snapshot_total_value_usd = 0, timestamp = days 91\<rparr>,
         \<lparr>snapshot_total_value_usd = 0, timestamp = days 92\<rparr>,
         \<lparr>snapshot_total_value_usd = 0, timestamp = days 93\<rparr>,
         \<lparr>snapshot_total_value_usd = 0, timestamp = days 94\<rparr>,
         \<lparr>snapshot_total_value_usd = 100, timestamp = days 95\<rparr>,
         \<lparr>snapshot_total_value_usd = 100, timestamp = days 96\<rparr>,
         \<lparr>snapshot_total_value_usd = 100, timestamp = days 97\<rparr>],
      risk_metrics = None,
      wallet_tokens = []\<rparr>"

text \<open>Seven snapshots, the first of value 0: five returns, and a running maximum of 0 at the start.\<close>

definition zero_start_db :: db where
  "zero_start_db =
     \<lparr>portfolio = Some new_portfolio,
      snapshots =
        [\<lparr>snapshot_total_value_usd = 0, timestamp = days 1\<rparr>,
         \<lparr>snapshot_total_value_usd = 100, timestamp = days 2\<rparr>,
         \<lparr>snapshot_total_value_usd = 100, timestamp = days 3\<rparr>,
         \<lparr>snapshot_total_value_usd = 100, timestamp = days 4\<rparr>,
         \<lparr>snapshot_total_value_usd = 100, timestamp = days 5\<rparr>,
         \<lparr>snapshot_total_value_usd = 100, timestamp = days 6\<rparr>,
         \<lparr>snapshot_total_value_usd = 100, timestamp = days 7\<rparr>],
      risk_metrics = None,
      wallet_tokens = []\<rparr>"

section \<open>The portfolio overview\<close>

lemma change_pct_cases:
  "change_pct t cp = (case cp of None \<Rightarrow> 0 | Some c \<Rightarrow> if 0 < c then 100 * (t - c) / c else 0)"
  by (simp add: change_pct_def split: option.splits)

lemma view_performance:
  "ov_performance (fst (portfolio_view_get now st)) =
     \<lparr>daily_change_pct = change_pct (total_value_of (wallet_tokens st))
         (previous_day_value_usd (fst (portfolio_get_or_create st))),
      weekly_change_pct = change_pct (total_value_of (wallet_tokens st))
         (previous_week_value_usd (fst (portfolio_get_or_create st))),
      monthly_change_pct = change_pct (total_value_of (wallet_tokens st))
         (previous_month_value_usd (fst (portfolio_get_or_create st)))\<rparr>"
  by (simp add: portfolio_view_get_def portfolio_get_or_create_def risk_metrics_get_or_create_def
      Let_def split: option.splits prod.splits)

lemma checkpoint_db_total: "total_value_of (wallet_tokens checkpoint_db) = 500"
  by (simp add: checkpoint_db_def total_value_of_def or_zero_def)

lemma checkpoint_db_row: "fst (portfolio_get_or_create checkpoint_db) = checkpoint_portfolio"
  by (simp add: portfolio_get_or_create_def checkpoint_db_def)

text \<open>
  Claim C8. For the current total and each of the three checkpoints of the portfolio row
  the overview reads: a checkpoint that is present and greater than 0 gives the change
  \<open>100 * (current - checkpoint) / checkpoint\<close>; a checkpoint that is absent, or present
  and at most 0 (a checkpoint of 0 with any current value among them), gives exactly 0.
  Division is never reached with a zero checkpoint.
\<close>

theorem reported_change_pct:
  "let resp = fst (portfolio_view_get now st);
       p = fst (portfolio_get_or_create st);
       cur = total_value_of (wallet_tokens st)
   in (previous_day_value_usd p = Some c \<and> 0 < c \<longrightarrow>
         daily_change_pct (ov_performance resp) = 100 * (cur - c) / c)
    \<and> (previous_day_value_usd p = None \<or> (previous_day_value_usd p = Some c \<and> c \<le> 0) \<longrightarrow>
         daily_change_pct (ov_performance resp) = 0)
    \<and> (previous_week_value_usd p = Some c \<and> 0 < c \<longrightarrow>
         weekly_change_pct (ov_performance resp) = 100 * (cur - c) / c)
    \<and> (previous_week_value_usd p = None \<or> (previous_week_value_usd p = Some c \<and> c \<le> 0) \<longrightarrow>
         weekly_change_pct (ov_performance resp) = 0)
    \<and> (previous_month_value_usd p = Some c \<and> 0 < c \<longrightarrow>
         monthly_change_pct (ov_performance resp) = 100 * (cur - c) / c)
    \<and> (previous_month_value_usd p = None \<or> (previous_month_value_usd p = Some c \<and> c \<le> 0) \<longrightarrow>
         monthly_change_pct (ov_performance resp) = 0)"
  unfolding Let_def view_performance by (auto simp: change_pct_cases)

text \<open>
  At a current total of 500: the day checkpoint 100 gives 400, the week checkpoint 0 and
  the missing month checkpoint give 0.
\<close>

theorem reported_change_pct_witness:
  "previous_day_value_usd (fst (portfolio_get_or_create checkpoint_db)) = Some 100
   \<and> previous_week_value_usd (fst (portfolio_get_or_create checkpoint_db)) = Some 0
   \<and> previous_month_value_usd (fst (portfolio_get_or_create checkpoint_db)) = None
   \<and> total_value_of (wallet_tokens checkpoint_db) = 500
   \<and> daily_change_pct (ov_performance (fst (portfolio_view_get (days 103) checkpoint_db))) = 400
   \<and> weekly_change_pct (ov_performance (fst (portfolio_view_get (days 103) checkpoint_db))) = 0
   \<and> monthly_change_pct (ov_performance (fst (portfolio_view_get (days 103) checkpoint_db))) = 0"
  using reported_change_pct [of "days 103" checkpoint_db 100]
    reported_change_pct [of "days 103" checkpoint_db 0]
  by (simp add: Let_def checkpoint_db_total checkpoint_db_row checkpoint_portfolio_def new_portfolio_def)

text \<open>
  Claim C10. Reading the overview writes: every request stores the sum of the current
  wallet-token balances as the total value of the portfolio row (creating the row if it
  is missing) and saves it. Every other field of that row (the three checkpoints, the
  extrema and their dates), the fields of the risk metrics (whose row is created unset
  if missing), the snapshots and the wallet tokens are as before; no snapshot is added.
\<close>

theorem view_get_effect:
  "snd (portfolio_view_get now st) =
     st\<lparr>portfolio := Some ((fst (portfolio_get_or_create st))
                             \<lparr>total_value_usd := total_value_of (wallet_tokens st)\<rparr>),
        risk_metrics := Some (stored_risk_metrics st)\<rparr>"
  by (simp add: portfolio_view_get_def portfolio_get_or_create_def risk_metrics_get_or_create_def
      stored_risk_metrics_def Let_def split: option.splits prod.splits)

text \<open>A read that changes the stored total from 100 to 500 and nothing else.\<close>

theorem view_get_effect_witness:
  "map_option total_value_usd (portfolio checkpoint_db) = Some 100
   \<and> portfolio (snd (portfolio_view_get (days 103) checkpoint_db)) =
       Some (checkpoint_portfolio\<lparr>total_value_usd := 500\<rparr>)
   \<and> snapshots (snd (portfolio_view_get (days 103) checkpoint_db)) = snapshots checkpoint_db
   \<and> stored_risk_metrics (snd (portfolio_view_get (days 103) checkpoint_db)) =
       stored_risk_metrics checkpoint_db"
  using view_get_effect [of "days 103" checkpoint_db]
  by (simp add: checkpoint_db_total checkpoint_db_row)
     (simp add: checkpoint_db_def checkpoint_portfolio_def stored_risk_metrics_def
        risk_metrics_get_or_create_def)

section \<open>The portfolio update of a synchronisation\<close>

lemma portfolio_after_update:
  "portfolio (snd (update_portfolio_data today now st)) =
     Some ((case portfolio st of
              None \<Rightarrow> initialize_portfolio (total_value_of (wallet_tokens st)) today new_portfolio
            | Some p \<Rightarrow> update_extrema (total_value_of (wallet_tokens st)) today
                         (fill_checkpoints (total_value_of (wallet_tokens st)) p))
           \<lparr>total_value_usd := total_value_of (wallet_tokens st)\<rparr>)"
  by (auto simp: update_portfolio_data_def portfolio_get_or_create_def create_snapshot_def
      risk_metrics_get_or_create_def Let_def split: option.splits sum.splits prod.splits)

lemma portfolio_sync_cycle:
  "portfolio (sync_cycle c st) =
     Some ((case portfolio st of
              None \<Rightarrow> initialize_portfolio (cycle_total c) (cycle_today c) new_portfolio
            | Some p \<Rightarrow> update_extrema (cycle_total c) (cycle_today c)
                         (fill_checkpoints (cycle_total c) p))
           \<lparr>total_value_usd := cycle_total c\<rparr>)"
  by (simp add: sync_cycle_def portfolio_after_update cycle_total_def split: option.splits)

lemma snapshots_after_update:
  "snapshots (snd (update_portfolio_data today now st)) = snapshots st
   \<or> snapshots (snd (update_portfolio_data today now st)) =
       snapshots st @ [\<lparr>snapshot_total_value_usd = total_value_of (wallet_tokens st), timestamp = now\<rparr>]"
  by (auto simp: update_portfolio_data_def portfolio_get_or_create_def create_snapshot_def
      risk_metrics_get_or_create_def Let_def split: option.splits sum.splits prod.splits)

lemma run_cycles_snoc: "run_cycles (cs @ [c]) st = sync_cycle c (run_cycles cs st)"
  by (simp add: run_cycles_def)

lemma snapshots_sync_cycle:
  "snapshots (sync_cycle c st) = snapshots st
   \<or> snapshots (sync_cycle c st) =
       snapshots st @ [\<lparr>snapshot_total_value_usd = cycle_total c, timestamp = cycle_now c\<rparr>]"
  using snapshots_after_update [of "cycle_today c" "cycle_now c" "st\<lparr>wallet_tokens := cycle_tokens c\<rparr>"]
  by (simp add: sync_cycle_def cycle_total_def)

lemma extrema_after_sync:
  assumes "portfolio (sync_cycle c st) = Some p'"
  shows "\<exists>h l. all_time_high_usd p' = Some h \<and> all_time_low_usd p' = Some l
           \<and> l \<le> cycle_total c \<and> cycle_total c \<le> h
           \<and> (\<forall>p h0. portfolio st = Some p \<and> all_time_high_usd p = Some h0 \<longrightarrow> h0 \<le> h)
           \<and> (\<forall>p l0. portfolio st = Some p \<and> all_time_low_usd p = Some l0 \<longrightarrow> l \<le> l0)"
  using assms unfolding portfolio_sync_cycle
  by (auto simp: initialize_portfolio_def update_extrema_def fill_checkpoints_def Let_def
      split: option.splits if_splits)

lemma first_cycle_extrema:
  assumes "fresh st"
  shows "\<exists>p. portfolio (sync_cycle c st) = Some p
           \<and> all_time_high_usd p = Some (cycle_total c) \<and> all_time_low_usd p = Some (cycle_total c)"
  using assms unfolding portfolio_sync_cycle
  by (auto simp: fresh_def initialize_portfolio_def update_extrema_def fill_checkpoints_def Let_def
      split: option.splits if_splits)

lemma cycle_total_examples:
  "cycle_total cycle_empty = 0" "cycle_total cycle_500 = 500" "cycle_total cycle_1000 = 1000"
  by (simp_all add: cycle_total_def cycle_empty_def cycle_500_def cycle_1000_def three_tokens_def
      total_value_of_def or_zero_def)

text \<open>
  Claim C3. Run any non-empty sequence of cycles from a fresh portfolio. Afterwards the
  all-time high and the all-time low are set, the high is at least and the low at most
  the valuation of every cycle run so far, the last one included, and the same holds for
  the value of every snapshot in the table. (The sequence is arbitrary, so this is the
  state after every cycle of a run.)
\<close>

theorem extrema_bound_all_valuations:
  assumes "fresh st" and "cs \<noteq> []"
  shows "\<exists>p h l. portfolio (run_cycles cs st) = Some p
           \<and> all_time_high_usd p = Some h \<and> all_time_low_usd p = Some l
           \<and> (\<forall>c \<in> set cs. l \<le> cycle_total c \<and> cycle_total c \<le> h)
           \<and> (\<forall>s \<in> set (snapshots (run_cycles cs st)).
                 l \<le> snapshot_total_value_usd s \<and> snapshot_total_value_usd s \<le> h)"
  using assms(2)
proof (induction cs rule: rev_nonempty_induct)
  case (single c)
  from first_cycle_extrema [OF assms(1), of c] obtain p where
    p: "portfolio (sync_cycle c st) = Some p"
       "all_time_high_usd p = Some (cycle_total c)" "all_time_low_usd p = Some (cycle_total c)"
    by blast
  from assms(1) have "snapshots st = []" by (simp add: fresh_def)
  with snapshots_sync_cycle [of c st]
  have "\<forall>s \<in> set (snapshots (sync_cycle c st)). snapshot_total_value_usd s = cycle_total c"
    by auto
  with p show ?case by (simp add: run_cycles_def)
next
  case (snoc c cs)
  let ?st = "run_cycles cs st"
  from snoc.IH obtain p h l where
    old: "portfolio ?st = Some p" "all_time_high_usd p = Some h" "all_time_low_usd p = Some l"
    and old_cycles: "\<forall>c \<in> set cs. l \<le> cycle_total c \<and> cycle_total c \<le> h"
    and old_snaps: "\<forall>s \<in> set (snapshots ?st).
                      l \<le> snapshot_total_value_usd s \<and> snapshot_total_value_usd s \<le> h"
    by blast
  obtain p' where p': "portfolio (sync_cycle c ?st) = Some p'"
    by (simp add: portfolio_sync_cycle)
  from extrema_after_sync [OF p'] old obtain h' l' where
    new: "all_time_high_usd p' = Some h'" "all_time_low_usd p' = Some l'"
         "l' \<le> cycle_total c" "cycle_total c \<le> h'" "h \<le> h'" "l' \<le> l"
    by blast
  have cycles: "\<forall>d \<in> set (cs @ [c]). l' \<le> cycle_total d \<and> cycle_total d \<le> h'"
    using old_cycles new by fastforce
  have snaps: "\<forall>s \<in> set (snapshots (sync_cycle c ?st)).
                 l' \<le> snapshot_total_value_usd s \<and> snapshot_total_value_usd s \<le> h'"
    using snapshots_sync_cycle [of c ?st] old_snaps new by fastforce
  show ?case
    unfolding run_cycles_snoc using p' new(1,2) cycles snaps by blast
qed

theorem extrema_bound_all_valuations_witness:
  "fresh fresh_db \<and> [cycle_1000, cycle_500] \<noteq> [] \<and>
   (\<exists>p h l. portfolio (run_cycles [cycle_1000, cycle_500] fresh_db) = Some p
      \<and> all_time_high_usd p = Some h \<and> all_time_low_usd p = Some l
      \<and> (\<forall>c \<in> set [cycle_1000, cycle_500]. l \<le> cycle_total c \<and> cycle_total c \<le> h)
      \<and> (\<forall>s \<in> set (snapshots (run_cycles [cycle_1000, cycle_500] fresh_db)).
            l \<le> snapshot_total_value_usd s \<and> snapshot_total_value_usd s \<le> h))"
proof -
  have f: "fresh fresh_db" by (simp add: fresh_def fresh_db_def)
  have n: "[cycle_1000, cycle_500] \<noteq> []" by simp
  from extrema_bound_all_valuations [OF f n] f n show ?thesis by blast
qed

lemma checkpoints_after_cycle:
  assumes "portfolio st = Some p"
  shows "\<exists>q. portfolio (sync_cycle c st) = Some q
     \<and> previous_day_value_usd q =
         (if falsy (previous_day_value_usd p) then Some (cycle_total c) else previous_day_value_usd p)
     \<and> previous_week_value_usd q =
         (if falsy (previous_week_value_usd p) then Some (cycle_total c) else previous_week_value_usd p)
     \<and> previous_month_value_usd q =
         (if falsy (previous_month_value_usd p) then Some (cycle_total c) else previous_month_value_usd p)"
  using assms unfolding portfolio_sync_cycle
  by (simp add: update_extrema_def fill_checkpoints_def Let_def split: option.splits)

lemma checkpoints_kept_run:
  "portfolio st = Some p \<Longrightarrow>
   \<exists>p'. portfolio (run_cycles cs st) = Some p'
     \<and> (\<forall>v. previous_day_value_usd p = Some v \<and> v \<noteq> 0 \<longrightarrow> previous_day_value_usd p' = Some v)
     \<and> (\<forall>v. previous_week_value_usd p = Some v \<and> v \<noteq> 0 \<longrightarrow> previous_week_value_usd p' = Some v)
     \<and> (\<forall>v. previous_month_value_usd p = Some v \<and> v \<noteq> 0 \<longrightarrow> previous_month_value_usd p' = Some v)"
proof (induction cs arbitrary: st p)
  case Nil
  then show ?case by (simp add: run_cycles_def)
next
  case (Cons c cs)
  from checkpoints_after_cycle [OF Cons.prems, of c] obtain q where
    q: "portfolio (sync_cycle c st) = Some q"
    and d: "previous_day_value_usd q =
         (if falsy (previous_day_value_usd p) then Some (cycle_total c) else previous_day_value_usd p)"
    and w: "previous_week_value_usd q =
         (if falsy (previous_week_value_usd p) then Some (cycle_total c) else previous_week_value_usd p)"
    and m: "previous_month_value_usd q =
         (if falsy (previous_month_value_usd p) then Some (cycle_total c) else previous_month_value_usd p)"
    by blast
  from Cons.IH [OF q] obtain p' where
    p': "portfolio (run_cycles cs (sync_cycle c st)) = Some p'"
    and d': "\<forall>v. previous_day_value_usd q = Some v \<and> v \<noteq> 0 \<longrightarrow> previous_day_value_usd p' = Some v"
    and w': "\<forall>v. previous_week_value_usd q = Some v \<and> v \<noteq> 0 \<longrightarrow> previous_week_value_usd p' = Some v"
    and m': "\<forall>v. previous_month_value_usd q = Some v \<and> v \<noteq> 0 \<longrightarrow> previous_month_value_usd p' = Some v"
    by blast
  have "\<forall>v. previous_day_value_usd p = Some v \<and> v \<noteq> 0 \<longrightarrow> previous_day_value_usd p' = Some v"
    using d d' by (auto simp: falsy_def)
  moreover have "\<forall>v. previous_week_value_usd p = Some v \<and> v \<noteq> 0 \<longrightarrow> previous_week_value_usd p' = Some v"
    using w w' by (auto simp: falsy_def)
  moreover have "\<forall>v. previous_month_value_usd p = Some v \<and> v \<noteq> 0 \<longrightarrow> previous_month_value_usd p' = Some v"
    using m m' by (auto simp: falsy_def)
  ultimately show ?case using p' by (simp add: run_cycles_def)
qed

text \<open>
  Claim C4, amended. A checkpoint that holds a non-zero value is never changed by any
  later cycle, whatever totals are observed. A checkpoint that is unset or holds zero
  counts as unset (\<open>not x\<close>) and is written with the total of the next cycle.
\<close>

theorem checkpoint_stable_once_nonzero:
  assumes "portfolio st = Some p"
  shows "(\<exists>p'. portfolio (run_cycles cs st) = Some p'
           \<and> (\<forall>v. previous_day_value_usd p = Some v \<and> v \<noteq> 0 \<longrightarrow> previous_day_value_usd p' = Some v)
           \<and> (\<forall>v. previous_week_value_usd p = Some v \<and> v \<noteq> 0 \<longrightarrow> previous_week_value_usd p' = Some v)
           \<and> (\<forall>v. previous_month_value_usd p = Some v \<and> v \<noteq> 0 \<longrightarrow> previous_month_value_usd p' = Some v))
       \<and> (\<exists>q. portfolio (sync_cycle c st) = Some q
           \<and> (falsy (previous_day_value_usd p) \<longrightarrow> previous_day_value_usd q = Some (cycle_total c))
           \<and> (falsy (previous_week_value_usd p) \<longrightarrow> previous_week_value_usd q = Some (cycle_total c))
           \<and> (falsy (previous_month_value_usd p) \<longrightarrow> previous_month_value_usd q = Some (cycle_total c)))"
proof
  show "\<exists>p'. portfolio (run_cycles cs st) = Some p'
           \<and> (\<forall>v. previous_day_value_usd p = Some v \<and> v \<noteq> 0 \<longrightarrow> previous_day_value_usd p' = Some v)
           \<and> (\<forall>v. previous_week_value_usd p = Some v \<and> v \<noteq> 0 \<longrightarrow> previous_week_value_usd p' = Some v)
           \<and> (\<forall>v. previous_month_value_usd p = Some v \<and> v \<noteq> 0 \<longrightarrow> previous_month_value_usd p' = Some v)"
    by (rule checkpoints_kept_run [OF assms])
next
  from checkpoints_after_cycle [OF assms, of c]
  show "\<exists>q. portfolio (sync_cycle c st) = Some q
           \<and> (falsy (previous_day_value_usd p) \<longrightarrow> previous_day_value_usd q = Some (cycle_total c))
           \<and> (falsy (previous_week_value_usd p) \<longrightarrow> previous_week_value_usd q = Some (cycle_total c))
           \<and> (falsy (previous_month_value_usd p) \<longrightarrow> previous_month_value_usd q = Some (cycle_total c))"
    by auto
qed

text \<open>
  The day checkpoint 100 survives two cycles with totals 1000 and 0; the week checkpoint
  0 and the missing month checkpoint are written by the first of them.
\<close>

theorem checkpoint_stable_once_nonzero_witness:
  "portfolio checkpoint_db = Some checkpoint_portfolio
   \<and> map_option previous_day_value_usd (portfolio (run_cycles [cycle_1000, cycle_empty] checkpoint_db))
       = Some (Some 100)
   \<and> falsy (previous_week_value_usd checkpoint_portfolio)
   \<and> falsy (previous_month_value_usd checkpoint_portfolio)
   \<and> map_option previous_week_value_usd (portfolio (sync_cycle cycle_1000 checkpoint_db))
       = Some (Some 1000)
   \<and> map_option previous_month_value_usd (portfolio (sync_cycle cycle_1000 checkpoint_db))
       = Some (Some 1000)"
proof -
  have p: "portfolio checkpoint_db = Some checkpoint_portfolio"
    by (simp add: checkpoint_db_def)
  have d: "previous_day_value_usd checkpoint_portfolio = Some 100"
    and w: "falsy (previous_week_value_usd checkpoint_portfolio)"
    and m: "falsy (previous_month_value_usd checkpoint_portfolio)"
    by (simp_all add: checkpoint_portfolio_def new_portfolio_def falsy_def)
  from checkpoint_stable_once_nonzero [OF p, of "[cycle_1000, cycle_empty]" cycle_1000] p d w m
  show ?thesis by (auto simp: cycle_total_examples)
qed

text \<open>
  The claim as stated fails: a first cycle with total 0 sets the day checkpoint to 0, and
  the next cycle, with total 500, writes it again.
\<close>

theorem checkpoint_rewritten_counterexample:
  "map_option previous_day_value_usd (portfolio (run_cycles [cycle_empty] fresh_db)) = Some (Some 0)
   \<and> map_option previous_day_value_usd (portfolio (run_cycles [cycle_empty, cycle_500] fresh_db)) = Some (Some 500)"
  by (simp add: run_cycles_def portfolio_sync_cycle cycle_total_examples fresh_db_def
      initialize_portfolio_def update_extrema_def fill_checkpoints_def falsy_def new_portfolio_def Let_def)

section \<open>Transaction direction\<close>

lemma lower_examples: "lower ''0xAB'' = ''0xab''" "lower ''0xab'' = ''0xab''"
  by code_simp+

text \<open>
  Claim C9, amended. Only the wallet's address is lower-cased; the addresses of the
  transaction are compared as the provider sent them. The direction is \<open>send\<close> exactly
  when the from-address equals the lower-cased wallet address, \<open>receive\<close> exactly when
  it does not and the to-address equals the lower-cased wallet address, and \<open>unknown\<close>
  exactly when neither does.
\<close>

theorem transaction_type_classification:
  "(transaction_type_of a tx = ''send'' \<longleftrightarrow> from_address tx = Some (lower a))
   \<and> (transaction_type_of a tx = ''receive'' \<longleftrightarrow>
        from_address tx \<noteq> Some (lower a) \<and> to_address tx = Some (lower a))
   \<and> (transaction_type_of a tx = ''unknown'' \<longleftrightarrow>
        from_address tx \<noteq> Some (lower a) \<and> to_address tx \<noteq> Some (lower a))"
  by (simp add: transaction_type_of_def)

theorem transaction_type_classification_witness:
  "transaction_type_of ''0xAB'' \<lparr>from_address = Some ''0xab'', to_address = Some ''0xab''\<rparr> = ''send''
   \<and> transaction_type_of ''0xAB'' \<lparr>from_address = Some ''0xcd'', to_address = Some ''0xab''\<rparr> = ''receive''
   \<and> transaction_type_of ''0xAB'' \<lparr>from_address = Some ''0xAB'', to_address = None\<rparr> = ''unknown''"
  using transaction_type_classification [of "''0xAB''" "\<lparr>from_address = Some ''0xab'', to_address = Some ''0xab''\<rparr>"]
    transaction_type_classification [of "''0xAB''" "\<lparr>from_address = Some ''0xcd'', to_address = Some ''0xab''\<rparr>"]
    transaction_type_classification [of "''0xAB''" "\<lparr>from_address = Some ''0xAB'', to_address = None\<rparr>"]
  by (simp add: lower_examples)

text \<open>
  The claim as stated fails: a from-address that differs from the wallet's address only
  in letter case is not recognised.
\<close>

theorem transaction_type_counterexample:
  "lower ''0xAB'' = lower ''0xab''
   \<and> transaction_type_of ''0xab'' \<lparr>from_address = Some ''0xAB'', to_address = Some ''0xcd''\<rparr> = ''unknown''"
  by (simp add: transaction_type_of_def lower_examples)

section \<open>The risk metrics calculator\<close>

lemma window_90d_risk_metrics_update [simp]:
  "window_90d now (st\<lparr>risk_metrics := r\<rparr>) = window_90d now st"
  by (simp add: window_90d_def)

lemma window_90d_cong:
  "snapshots st' = snapshots st \<Longrightarrow> window_90d now st' = window_90d now st"
  by (simp add: window_90d_def)

lemma stored_risk_metrics_simps [simp]:
  "stored_risk_metrics (st\<lparr>portfolio := x\<rparr>) = stored_risk_metrics st"
  "stored_risk_metrics (st\<lparr>snapshots := y\<rparr>) = stored_risk_metrics st"
  "stored_risk_metrics (st\<lparr>wallet_tokens := z\<rparr>) = stored_risk_metrics st"
  "stored_risk_metrics (st\<lparr>risk_metrics := Some r\<rparr>) = r"
  by (simp_all add: stored_risk_metrics_def risk_metrics_get_or_create_def split: option.splits)

lemma calculate_with_insufficient_history:
  assumes "portfolio st = Some p"
    and "length (window_90d now st) < 7
         \<or> length (daily_returns (map snapshot_total_value_usd (window_90d now st))) < 5"
  shows "fst (calculate_portfolio_risk_metrics np save now st) =
           (False, if length (window_90d now st) < 7
                   then ''Not enough historical data for risk calculations''
                   else ''Not enough return data for risk calculations'')
       \<and> stored_risk_metrics (snd (calculate_portfolio_risk_metrics np save now st)) = stored_risk_metrics st
       \<and> portfolio (snd (calculate_portfolio_risk_metrics np save now st)) = portfolio st
       \<and> snapshots (snd (calculate_portfolio_risk_metrics np save now st)) = snapshots st
       \<and> wallet_tokens (snd (calculate_portfolio_risk_metrics np save now st)) = wallet_tokens st"
  using assms
  by (auto simp: calculate_portfolio_risk_metrics_def risk_metrics_get_or_create_def
      stored_risk_metrics_def Let_def split: option.splits)

lemma max_drawdown_defined:
  "values \<noteq> [] \<Longrightarrow> \<exists>dd. max_drawdown_of values = Some dd"
  by (cases "values") (simp_all add: max_drawdown_of_def drawdowns_of_def)

text \<open>With enough history the calculation reaches \<open>save()\<close>, and its outcome decides.\<close>

lemma calculate_with_enough_history:
  assumes "portfolio st = Some p"
    and "7 \<le> length (window_90d now st)"
    and "5 \<le> length (daily_returns (map snapshot_total_value_usd (window_90d now st)))"
  shows "\<exists>dd. max_drawdown_of (map snapshot_total_value_usd (window_90d now st)) = Some dd
     \<and> calculate_portfolio_risk_metrics np save now st =
        (case save ((stored_risk_metrics st)
            \<lparr>volatility_30d := Some (Fin (volatility_30d_of np
                 (daily_returns (map snapshot_total_value_usd (window_90d now st))))),
             volatility_90d := Some (Fin (volatility_90d_of np
                 (daily_returns (map snapshot_total_value_usd (window_90d now st))))),
             max_drawdown := Some dd,
             sharpe_ratio := Some (Fin (sharpe_ratio_of np
                 (daily_returns (map snapshot_total_value_usd (window_90d now st))))),
             value_at_risk := Some (Fin (var_95_of np
                 (daily_returns (map snapshot_total_value_usd (window_90d now st)))))\<rparr>) of
           Inl msg \<Rightarrow>
             ((False, ''Error calculating risk metrics: '' @ msg),
              st\<lparr>risk_metrics := Some (stored_risk_metrics st)\<rparr>)
         | Inr stored \<Rightarrow>
             ((True, ''Risk metrics updated successfully''), st\<lparr>risk_metrics := Some stored\<rparr>))"
proof -
  from assms(2) have "map snapshot_total_value_usd (window_90d now st) \<noteq> []" by auto
  from max_drawdown_defined [OF this] obtain dd where
    dd: "max_drawdown_of (map snapshot_total_value_usd (window_90d now st)) = Some dd" by blast
  show ?thesis
    using assms dd
    by (auto simp: calculate_portfolio_risk_metrics_def risk_metrics_get_or_create_def
        stored_risk_metrics_def Let_def split: option.splits sum.splits)
qed

lemma sparse_window:
  "map snapshot_total_value_usd (window_90d (days 103) sparse_db) = [0, 0, 0, 0, 100, 100, 100]"
  by (simp add: window_90d_def sparse_db_def days_def)

lemma history_window:
  "map snapshot_total_value_usd (window_90d (days 103) history_db) = flat_values"
  by (simp add: window_90d_def history_db_def days_def flat_values_def)

lemma flat_returns: "daily_returns flat_values = [0, 0, 0, 0, 0, 0, 0]"
  by (simp add: flat_values_def)

text \<open>
  Claim C2. For an existing portfolio whose 90-day window holds fewer than 7 snapshots,
  or whose return series (pairs with a non-positive first value skipped) holds fewer
  than 5 returns, the calculation returns \<open>False\<close> with the reason of the check that
  failed, raises nothing, and leaves every field of the stored risk metrics, and every
  other table, as it was. Neither numpy nor \<open>save()\<close> is reached, so this holds whatever
  they do.
\<close>

theorem insufficient_history_soft_failure:
  assumes "portfolio st = Some p"
    and "length (window_90d now st) < 7
         \<or> length (daily_returns (map snapshot_total_value_usd (window_90d now st))) < 5"
  shows "fst (calculate_portfolio_risk_metrics np save now st) =
           (False, if length (window_90d now st) < 7
                   then ''Not enough historical data for risk calculations''
                   else ''Not enough return data for risk calculations'')
       \<and> stored_risk_metrics (snd (calculate_portfolio_risk_metrics np save now st)) = stored_risk_metrics st
       \<and> portfolio (snd (calculate_portfolio_risk_metrics np save now st)) = portfolio st
       \<and> snapshots (snd (calculate_portfolio_risk_metrics np save now st)) = snapshots st
       \<and> wallet_tokens (snd (calculate_portfolio_risk_metrics np save now st)) = wallet_tokens st"
  using assms by (rule calculate_with_insufficient_history)

text \<open>
  Both ways of failing: no snapshot at all, and seven snapshots that leave two returns.
\<close>

theorem insufficient_history_soft_failure_witness:
  "portfolio checkpoint_db = Some checkpoint_portfolio
   \<and> length (window_90d (days 103) checkpoint_db) < 7
   \<and> fst (calculate_portfolio_risk_metrics exact_numpy save_as_assigned (days 103) checkpoint_db) =
       (False, ''Not enough historical data for risk calculations'')
   \<and> stored_risk_metrics
        (snd (calculate_portfolio_risk_metrics exact_numpy save_as_assigned (days 103) checkpoint_db)) =
       stored_risk_metrics checkpoint_db
   \<and> portfolio sparse_db = Some new_portfolio
   \<and> length (window_90d (days 103) sparse_db) = 7
   \<and> length (daily_returns (map snapshot_total_value_usd (window_90d (days 103) sparse_db))) < 5
   \<and> fst (calculate_portfolio_risk_metrics exact_numpy save_as_assigned (days 103) sparse_db) =
       (False, ''Not enough return data for risk calculations'')
   \<and> stored_risk_metrics
        (snd (calculate_portfolio_risk_metrics exact_numpy save_as_assigned (days 103) sparse_db)) =
       stored_risk_metrics sparse_db"
proof -
  have p1: "portfolio checkpoint_db = Some checkpoint_portfolio"
    by (simp add: checkpoint_db_def)
  have w1: "length (window_90d (days 103) checkpoint_db) < 7"
    by (simp add: window_90d_def checkpoint_db_def)
  have p2: "portfolio sparse_db = Some new_portfolio"
    by (simp add: sparse_db_def)
  have w2: "length (window_90d (days 103) sparse_db) = 7"
    using arg_cong [OF sparse_window, of length] by simp
  have r2: "length (daily_returns (map snapshot_total_value_usd (window_90d (days 103) sparse_db))) < 5"
    by (simp add: sparse_window)
  from insufficient_history_soft_failure [OF p1, of "days 103" exact_numpy save_as_assigned]
       insufficient_history_soft_failure [OF p2, of "days 103" exact_numpy save_as_assigned]
       p1 w1 p2 w2 r2
  show ?thesis by simp
qed

lemma growth_returns:
  "daily_returns growth_values = [1 / 5, 1 / 5, 1 / 5, 1 / 5, 1 / 5, 1 / 5]"
  by (simp add: growth_values_def)

lemma growth_population_std: "population_std [1 / 5, 1 / 5, 1 / 5, 1 / 5, 1 / 5, 1 / 5] = 0"
  by (simp add: population_std_def mean_of_def)

lemma sharpe_ratio_lower_bound:
  assumes "np_std np R = 1 / 2 ^ 55"
    and "np_mean np R = 7205759403792793 / 2 ^ 55"
    and "19 \<le> np_sqrt np 365"
  shows "10 ^ 17 < sharpe_ratio_of np R"
proof -
  have pos: "0 < np_std np R" by (simp add: assms(1))
  have q: "(np_mean np R - risk_free_rate) / np_std np R = 7205759403792793 - (0.02 / 365) * 2 ^ 55"
    by (simp add: assms(1,2) risk_free_rate_def field_simps)
  have lo: "7 * 10 ^ 15 \<le> (np_mean np R - risk_free_rate) / np_std np R"
    unfolding q by simp
  have "(7 * 10 ^ 15) * 19 \<le> (np_mean np R - risk_free_rate) / np_std np R * np_sqrt np 365"
    using lo assms(3) by (intro mult_mono) simp_all
  moreover have "(10 ^ 17 :: real) < (7 * 10 ^ 15) * 19" by simp
  ultimately show ?thesis
    using pos by (simp add: sharpe_ratio_of_def)
qed

text \<open>
  Claim C6, on the code: the guard compares the float64 result of \<open>np.std\<close> with 0. The
  valuations 15625, 18750, 22500, 27000, 32400, 38880, 46656 have six returns of exactly
  one fifth: their population standard deviation is 0, and with nothing rounded the code
  reports a Sharpe ratio of 0, as the claim says. In float64 the six returns are the
  double nearest to 0.2, their sum is rounded, \<open>np.mean\<close> returns
  \<open>7205759403792793 / 2 ** 55\<close> and \<open>np.std\<close> returns \<open>2 ** -55\<close>; the guard lets the
  division through, and with these results the Sharpe ratio computed exceeds \<open>10 ** 17\<close>.
\<close>

theorem sharpe_ratio_of_constant_growth:
  "daily_returns growth_values = [1 / 5, 1 / 5, 1 / 5, 1 / 5, 1 / 5, 1 / 5]
   \<and> population_std (daily_returns growth_values) = 0
   \<and> sharpe_ratio_of exact_numpy (daily_returns growth_values) = 0
   \<and> (np_std np (daily_returns growth_values) = 1 / 2 ^ 55
        \<and> np_mean np (daily_returns growth_values) = 7205759403792793 / 2 ^ 55
        \<and> 19 \<le> np_sqrt np 365
      \<longrightarrow> 10 ^ 17 < sharpe_ratio_of np (daily_returns growth_values))"
proof (intro conjI impI)
  show "daily_returns growth_values = [1 / 5, 1 / 5, 1 / 5, 1 / 5, 1 / 5, 1 / 5]"
    by (rule growth_returns)
  show "population_std (daily_returns growth_values) = 0"
    by (simp only: growth_returns growth_population_std)
  show "sharpe_ratio_of exact_numpy (daily_returns growth_values) = 0"
    by (simp add: sharpe_ratio_of_def exact_numpy_def growth_returns growth_population_std)
next
  assume "np_std np (daily_returns growth_values) = 1 / 2 ^ 55
        \<and> np_mean np (daily_returns growth_values) = 7205759403792793 / 2 ^ 55
        \<and> 19 \<le> np_sqrt np 365"
  then show "10 ^ 17 < sharpe_ratio_of np (daily_returns growth_values)"
    by (intro sharpe_ratio_lower_bound) simp_all
qed

text \<open>A numpy that returns the two float64 results on every array, and the real square root.\<close>

theorem sharpe_ratio_of_constant_growth_witness:
  "np_std (exact_numpy\<lparr>np_mean := \<lambda>xs. 7205759403792793 / 2 ^ 55, np_std := \<lambda>xs. 1 / 2 ^ 55\<rparr>)
      (daily_returns growth_values) = 1 / 2 ^ 55
   \<and> np_mean (exact_numpy\<lparr>np_mean := \<lambda>xs. 7205759403792793 / 2 ^ 55, np_std := \<lambda>xs. 1 / 2 ^ 55\<rparr>)
      (daily_returns growth_values) = 7205759403792793 / 2 ^ 55
   \<and> 19 \<le> np_sqrt (exact_numpy\<lparr>np_mean := \<lambda>xs. 7205759403792793 / 2 ^ 55, np_std := \<lambda>xs. 1 / 2 ^ 55\<rparr>) 365
   \<and> 10 ^ 17 < sharpe_ratio_of
        (exact_numpy\<lparr>np_mean := \<lambda>xs. 7205759403792793 / 2 ^ 55, np_std := \<lambda>xs. 1 / 2 ^ 55\<rparr>)
        (daily_returns growth_values)"
proof -
  let ?np = "exact_numpy\<lparr>np_mean := \<lambda>xs. 7205759403792793 / 2 ^ 55, np_std := \<lambda>xs. 1 / 2 ^ 55\<rparr>"
  have "(19 :: real) \<le> sqrt 365" by (rule real_le_rsqrt) simp
  then have h: "np_std ?np (daily_returns growth_values) = 1 / 2 ^ 55
        \<and> np_mean ?np (daily_returns growth_values) = 7205759403792793 / 2 ^ 55
        \<and> 19 \<le> np_sqrt ?np 365"
    by (simp add: exact_numpy_def)
  from sharpe_ratio_of_constant_growth [of ?np] h
  have "10 ^ 17 < sharpe_ratio_of ?np (daily_returns growth_values)" by blast
  with h show ?thesis by blast
qed

lemma zero_start_window:
  "map snapshot_total_value_usd (window_90d (days 8) zero_start_db) = [0, 100, 100, 100, 100, 100, 100]"
  by (simp add: window_90d_def zero_start_db_def days_def)

lemma zero_start_drawdown: "max_drawdown_of [0, 100, 100, 100, 100, 100, 100] = Some NaN"
  by (simp add: max_drawdown_of_def drawdowns_of_def np_divide_def)

text \<open>
  Claim C5, on the code: the division by the running maximum is not guarded. For the
  valuations 0, 100, 100, 100, 100, 100, 100 the first pair is skipped, five returns
  remain, so the calculation reaches the drawdown; the running maximum 0 at the first
  index makes the drawdown there 0 / 0, and the maximum drawdown computed and assigned
  to the field is NaN, not the 0 that an index contributing no drawdown would give.
  Whatever numpy returns for the other metrics, a \<open>save()\<close> that stores what was assigned
  stores the NaN.
\<close>

theorem max_drawdown_zero_running_max:
  "map snapshot_total_value_usd (window_90d (days 8) zero_start_db) = [0, 100, 100, 100, 100, 100, 100]
   \<and> maximum_accumulate [0, 100, 100, 100, 100, 100, 100] = [0, 100, 100, 100, 100, 100, 100]
   \<and> length (daily_returns [0, 100, 100, 100, 100, 100, 100]) = 5
   \<and> max_drawdown_of [0, 100, 100, 100, 100, 100, 100] = Some NaN
   \<and> max_drawdown (stored_risk_metrics
        (snd (calculate_portfolio_risk_metrics np save_as_assigned (days 8) zero_start_db))) = Some NaN"
proof -
  have p: "portfolio zero_start_db = Some new_portfolio" by (simp add: zero_start_db_def)
  have w: "7 \<le> length (window_90d (days 8) zero_start_db)"
    using arg_cong [OF zero_start_window, of length] by simp
  have r: "5 \<le> length (daily_returns (map snapshot_total_value_usd (window_90d (days 8) zero_start_db)))"
    by (simp add: zero_start_window)
  from calculate_with_enough_history [OF p w r, of np save_as_assigned]
  have "max_drawdown (stored_risk_metrics
        (snd (calculate_portfolio_risk_metrics np save_as_assigned (days 8) zero_start_db))) = Some NaN"
    by (auto simp: zero_start_window zero_start_drawdown save_as_assigned_def)
  then show ?thesis
    by (simp add: zero_start_window zero_start_drawdown)
qed

section \<open>Synchronisation and the risk metrics\<close>

lemma risk_metrics_get_or_createD:
  "risk_metrics_get_or_create st = (rm, st') \<Longrightarrow>
     rm = stored_risk_metrics st \<and> stored_risk_metrics st' = stored_risk_metrics st"
  by (auto simp: stored_risk_metrics_def risk_metrics_get_or_create_def split: option.splits)

lemma concentration_block_history:
  "concentration_block wts t rm = Inr rm' \<Longrightarrow> history_metrics rm' = history_metrics rm"
  by (auto simp: concentration_block_def history_metrics_def split: if_splits sum.splits)

lemma create_snapshotD:
  "create_snapshot t now st = Inr st' \<Longrightarrow> stored_risk_metrics st' = stored_risk_metrics st"
  by (auto simp: create_snapshot_def split: sum.splits)

lemma history_metrics_after_update:
  "history_metrics (stored_risk_metrics (snd (update_portfolio_data today now st))) =
   history_metrics (stored_risk_metrics st)"
proof -
  obtain p0 created st1 where g: "portfolio_get_or_create st = (p0, created, st1)"
    by (cases "portfolio_get_or_create st") auto
  then have s1: "stored_risk_metrics st1 = stored_risk_metrics st"
    by (auto simp: portfolio_get_or_create_def split: option.splits)
  show ?thesis
    unfolding update_portfolio_data_def g Let_def
    by (auto simp: s1 split: sum.splits prod.splits
        dest!: create_snapshotD risk_metrics_get_or_createD concentration_block_history)
qed

lemma update_portfolio_data_raises:
  "fst (update_portfolio_data today now st) = [(''Portfolio update'', NameError ''PortfolioSnapshot'')]
   \<and> snapshots (snd (update_portfolio_data today now st)) = snapshots st
   \<and> risk_metrics (snd (update_portfolio_data today now st)) = risk_metrics st
   \<and> wallet_tokens (snd (update_portfolio_data today now st)) = wallet_tokens st"
  by (simp add: update_portfolio_data_def portfolio_get_or_create_def create_snapshot_def
      lookup_global_def views_globals_def Let_def split: option.splits)

lemma sync_cycle_tables:
  "snapshots (sync_cycle c st) = snapshots st"
  "risk_metrics (sync_cycle c st) = risk_metrics st"
  "wallet_tokens (sync_cycle c st) = cycle_tokens c"
  using update_portfolio_data_raises [of "cycle_today c" "cycle_now c" "st\<lparr>wallet_tokens := cycle_tokens c\<rparr>"]
  by (simp_all add: sync_cycle_def)

text \<open>
  Claim C1, amended. A synchronisation cycle does not recompute the volatilities, the
  maximum drawdown, the Sharpe ratio or the value at risk: whether or not the snapshot
  history is enough, these stored values are after the cycle what they were before it.
  The cycle never calls the calculation that derives them. (Nothing is said here about
  what the cycle does to the concentration risk.)
\<close>

theorem sync_leaves_history_metrics:
  "history_metrics (stored_risk_metrics (sync_cycle c st)) = history_metrics (stored_risk_metrics st)"
  using history_metrics_after_update [of "cycle_today c" "cycle_now c" "st\<lparr>wallet_tokens := cycle_tokens c\<rparr>"]
  by (simp add: sync_cycle_def)

text \<open>A portfolio with stored metrics keeps them through a cycle.\<close>

theorem sync_leaves_history_metrics_witness:
  "history_metrics (stored_risk_metrics (sync_cycle cycle_1000
      (history_db\<lparr>risk_metrics := Some (new_risk_metrics
         \<lparr>volatility_30d := Some (Fin 3), max_drawdown := Some (Fin 18)\<rparr>)\<rparr>))) =
   (Some (Fin 3), None, Some (Fin 18), None, None)"
  using sync_leaves_history_metrics [of cycle_1000
      "history_db\<lparr>risk_metrics := Some (new_risk_metrics
         \<lparr>volatility_30d := Some (Fin 3), max_drawdown := Some (Fin 18)\<rparr>)\<rparr>"]
  by (simp add: history_metrics_def new_risk_metrics_def)

text \<open>
  The claim as stated fails: after a cycle on a portfolio with eight snapshots in the
  window and seven returns, enough history for the calculation, the five stored fields
  are still unset.
\<close>

theorem sync_does_not_recompute_counterexample:
  "7 \<le> length (window_90d (days 103) (sync_cycle cycle_1000 history_db))
   \<and> 5 \<le> length (daily_returns (map snapshot_total_value_usd
                (window_90d (days 103) (sync_cycle cycle_1000 history_db))))
   \<and> history_metrics (stored_risk_metrics (sync_cycle cycle_1000 history_db)) = (None, None, None, None, None)"
proof -
  let ?st = "sync_cycle cycle_1000 history_db"
  have w: "window_90d (days 103) ?st = window_90d (days 103) history_db"
    by (rule window_90d_cong) (simp add: sync_cycle_tables)
  have v: "map snapshot_total_value_usd (window_90d (days 103) ?st) = flat_values"
    by (simp add: w history_window)
  have l: "length (window_90d (days 103) ?st) = 8"
    using arg_cong [OF v, of length] by (simp add: flat_values_def)
  have m: "stored_risk_metrics ?st = new_risk_metrics"
    by (simp add: stored_risk_metrics_def risk_metrics_get_or_create_def sync_cycle_tables history_db_def)
  have e1: "7 \<le> length (window_90d (days 103) ?st)" by (simp add: l)
  have e2: "5 \<le> length (daily_returns (map snapshot_total_value_usd (window_90d (days 103) ?st)))"
    by (simp add: v flat_returns)
  from e1 e2 m show ?thesis
    by (simp add: history_metrics_def new_risk_metrics_def)
qed

text \<open>
  Claim C7, on the code: the concentration block is never reached. For the assets BTC
  600, ETH 300 and SOL 100 (total 1000) the block would compute 60, but the line that
  creates the snapshot raises NameError first (\<open>PortfolioSnapshot\<close> is not among the
  names of the module), the handler records the failure, and the concentration risk
  stays unset.
\<close>

theorem concentration_never_stored:
  "total_value_of three_tokens = 1000
   \<and> concentration_block three_tokens 1000 new_risk_metrics =
       Inr (new_risk_metrics\<lparr>concentration_risk := Some 60\<rparr>)
   \<and> update_portfolio_data 103 (days 103) (fresh_db\<lparr>wallet_tokens := three_tokens\<rparr>) =
       ([(''Portfolio update'', NameError ''PortfolioSnapshot'')],
        fresh_db\<lparr>wallet_tokens := three_tokens,
                 portfolio := Some (initialize_portfolio 1000 103 new_portfolio\<lparr>total_value_usd := 1000\<rparr>)\<rparr>)
   \<and> concentration_risk (stored_risk_metrics
        (snd (update_portfolio_data 103 (days 103) (fresh_db\<lparr>wallet_tokens := three_tokens\<rparr>)))) = None"
proof -
  have t: "total_value_of three_tokens = 1000"
    by (simp add: three_tokens_def total_value_of_def or_zero_def)
  have c: "concentration_block three_tokens 1000 new_risk_metrics =
       Inr (new_risk_metrics\<lparr>concentration_risk := Some 60\<rparr>)"
    by (simp add: concentration_block_def three_tokens_def token_values_of_def add_token_value_def
        py_max_def or_zero_def)
  have u: "update_portfolio_data 103 (days 103) (fresh_db\<lparr>wallet_tokens := three_tokens\<rparr>) =
       ([(''Portfolio update'', NameError ''PortfolioSnapshot'')],
        fresh_db\<lparr>wallet_tokens := three_tokens,
                 portfolio := Some (initialize_portfolio 1000 103 new_portfolio\<lparr>total_value_usd := 1000\<rparr>)\<rparr>)"
    by (simp add: update_portfolio_data_def portfolio_get_or_create_def create_snapshot_def
        lookup_global_def views_globals_def Let_def fresh_db_def t)
  have n: "concentration_risk (stored_risk_metrics
        (snd (update_portfolio_data 103 (days 103) (fresh_db\<lparr>wallet_tokens := three_tokens\<rparr>)))) = None"
    unfolding u by (simp add: fresh_db_def stored_risk_metrics_def risk_metrics_get_or_create_def
        new_risk_metrics_def)
  from t c u n show ?thesis by blast
qed

end
